theory Spec2Isabelle
  imports Complex_Main "HOL-Library.Sublist" "HOL-Library.Signed_Division"
begin

section \<open>docker-housekeeping: the retag and prune-preview-tags workflows of main.go\<close>

text \<open>
  The program is a sequence of blocking HTTP calls. Everything outside the repository is a
  field of the record \<open>env\<close>: the process environment, \<open>http.NewRequest\<close>,
  \<open>http.DefaultClient.Do\<close>, \<open>time.Now\<close>, \<open>json.Unmarshal\<close> at each of the four
  struct types the program decodes into, and \<open>time.Parse\<close>. The state threaded through the
  program is the list of HTTP exchanges made so far; the remote services answer a request as
  a function of that list, so that any run of the real services is the run of some \<open>env\<close>.
  Logging has no effect on control flow and is left out.
\<close>

subsection \<open>Data\<close>

text \<open>A Go \<open>error\<close> is identified with its \<open>Error()\<close> text; \<open>[]byte\<close> is a char list.\<close>

type_synonym error = string
type_synonym bytes = string

text \<open>
  \<open>http.Request\<close>, as far as the program fills it in. \<open>BasicAuth\<close> holds the arguments of
  \<open>SetBasicAuth\<close>; \<open>Header\<close> the pairs given to \<open>Header.Set\<close>, in order; a nil body is the
  empty list.
\<close>

record request =
  Method :: string
  URL :: string
  BasicAuth :: "(string \<times> string) option"
  Header :: "(string \<times> string) list"
  ReqBody :: bytes

text \<open>\<open>http.Response\<close>: \<open>Body\<close> is what \<open>ioutil.ReadAll(resp.Body)\<close> returns.\<close>

record response =
  StatusCode :: int
  Status :: string
  Body :: "error + bytes"

type_synonym exchange = "request \<times> (error + response)"
type_synonym history = "exchange list"

text \<open>The anonymous structs the four JSON bodies are decoded into.\<close>

record tokenData =
  Details :: string
  Token :: string

record tagsData =
  Name :: string
  Tags :: "string list"

record imageResult =
  User :: string
  ImageName :: string

record imagesData =
  Count :: int
  Results :: "imageResult list"

record tagData =
  LastUpdated :: string
  TagLastPushed :: string

text \<open>
  A \<open>time.Time\<close> is an instant in nanoseconds (an unbounded integer); a \<open>time.Duration\<close> is
  an int64 count of nanoseconds.
\<close>

record env =
  LookupEnv :: "string \<Rightarrow> string option"
  NewRequestError :: "string \<Rightarrow> string \<Rightarrow> error option"
  Do :: "history \<Rightarrow> request \<Rightarrow> error + response"
  Now :: "history \<Rightarrow> int"
  UnmarshalToken :: "bytes \<Rightarrow> error + tokenData"
  UnmarshalTags :: "bytes \<Rightarrow> error + tagsData"
  UnmarshalImages :: "bytes \<Rightarrow> error + imagesData"
  UnmarshalTag :: "bytes \<Rightarrow> error + tagData"
  ParseRFC3339 :: "string \<Rightarrow> error + int"

definition dockerUsernameEnv :: string where
  "dockerUsernameEnv = ''DOCKERHUB_USERNAME''"

definition dockerPasswordEnv :: string where
  "dockerPasswordEnv = ''DOCKERHUB_PASSWORD''"

subsection \<open>Library calls\<close>

text \<open>
  \<open>http.NewRequest(method, url, body)\<close>: fails on a method or URL it cannot parse, and
  otherwise gives a request with no headers.
\<close>

definition NewRequest :: "env \<Rightarrow> string \<Rightarrow> string \<Rightarrow> bytes \<Rightarrow> error + request" where
  "NewRequest env m u b =
     (case NewRequestError env m u of
        Some err \<Rightarrow> Inl err
      | None \<Rightarrow> Inr \<lparr>Method = m, URL = u, BasicAuth = None, Header = [], ReqBody = b\<rparr>)"

definition HeaderSet :: "string \<Rightarrow> string \<Rightarrow> request \<Rightarrow> request" where
  "HeaderSet k v req = req\<lparr>Header := filter (\<lambda>kv. fst kv \<noteq> k) (Header req) @ [(k, v)]\<rparr>"

definition SetBasicAuth :: "string \<Rightarrow> string \<Rightarrow> request \<Rightarrow> request" where
  "SetBasicAuth username password req = req\<lparr>BasicAuth := Some (username, password)\<rparr>"

text \<open>\<open>client.Do(req)\<close>: one round trip, appended to the history.\<close>

definition clientDo :: "env \<Rightarrow> request \<Rightarrow> history \<Rightarrow> (error + response) \<times> history" where
  "clientDo env req h = (let r = Do env h req in (r, h @ [(req, r)]))"

text \<open>\<open>strings.HasPrefix(s, p)\<close> is \<open>len(s) >= len(p) && s[:len(p)] == p\<close>.\<close>

definition HasPrefix :: "string \<Rightarrow> string \<Rightarrow> bool" where
  "HasPrefix s p = (length s \<ge> length p \<and> take (length p) s = p)"

text \<open>
  \<open>time.Since(t)\<close> is \<open>time.Now().Sub(t)\<close>, and \<open>Sub\<close> saturates at the ends of int64.
  \<open>Duration.Hours\<close> is \<open>float64(d / Hour) + float64(d % Hour) / (60*60*1e9)\<close>, with Go's
  truncating division; it is computed here in exact arithmetic. The only use of the result
  is the comparison with 24, which float64 rounding cannot change: for \<open>d\<close> above 24 hours
  the fraction is at least \<open>1 / 3.6e12\<close> (78 units in the last place of 24) or the integral
  part is at least 25, and for \<open>d\<close> below 24 hours the sum stays \<open>1 / 3.6e12\<close> below 24.
\<close>

definition minDuration :: int where
  "minDuration = - (2 ^ 63)"

definition maxDuration :: int where
  "maxDuration = 2 ^ 63 - 1"

definition Sub :: "int \<Rightarrow> int \<Rightarrow> int" where
  "Sub t u =
     (if minDuration \<le> t - u \<and> t - u \<le> maxDuration then t - u
      else if t < u then minDuration
      else maxDuration)"

definition Since :: "env \<Rightarrow> history \<Rightarrow> int \<Rightarrow> int" where
  "Since env h t = Sub (Now env h) t"

definition Hour :: int where
  "Hour = 60 * 60 * 1000000000"

definition Hours :: "int \<Rightarrow> real" where
  "Hours d = real_of_int (d sdiv Hour) + real_of_int (d smod Hour) / (60 * 60 * 1000000000)"

subsection \<open>The HTTP helpers\<close>

definition loginRegistry :: "env \<Rightarrow> string \<Rightarrow> string \<Rightarrow> string \<Rightarrow> history \<Rightarrow> (error + string) \<times> history" where
  "loginRegistry env repo username password h =
     (let url = ''https://auth.docker.io/token?service=registry.docker.io&scope=repository:'' @ repo @ '':pull,push'' in
      case NewRequest env ''GET'' url [] of
        Inl err \<Rightarrow> (Inl err, h)
      | Inr req0 \<Rightarrow>
          (let req = SetBasicAuth username password req0 in
           case clientDo env req h of
             (Inl err, h') \<Rightarrow> (Inl err, h')
           | (Inr resp, h') \<Rightarrow>
               if StatusCode resp \<noteq> 200 then (Inl (Status resp), h')
               else (case Body resp of
                  Inl err \<Rightarrow> (Inl err, h')
                | Inr bodyText \<Rightarrow>
                    (case UnmarshalToken env bodyText of
                       Inl err \<Rightarrow> (Inl err, h')
                     | Inr data \<Rightarrow>
                         if Token data = [] then (Inl ''empty token'', h')
                         else (Inr (Token data), h')))))"

text \<open>
  The body of the hub login: \<open>fmt.Sprintf\<close> of a raw string literal that spans three lines,
  the second and third indented by two tabs, with the two \<open>%s\<close> replaced by the arguments.
\<close>

definition loginHubBody :: "string \<Rightarrow> string \<Rightarrow> bytes" where
  "loginHubBody username password =
     [CHR ''{'', CHR 0x0A, CHR 0x09, CHR 0x09] @ [CHR 0x22] @ ''username'' @ [CHR 0x22] @ '': '' @ [CHR 0x22]
       @ username @ [CHR 0x22] @ '','' @ [CHR 0x0A, CHR 0x09, CHR 0x09] @ [CHR 0x22] @ ''password'' @ [CHR 0x22] @ '': '' @ [CHR 0x22]
       @ password @ [CHR 0x22] @ [CHR 0x0A, CHR 0x09] @ ''}''"

definition loginHub :: "env \<Rightarrow> string \<Rightarrow> string \<Rightarrow> history \<Rightarrow> (error + string) \<times> history" where
  "loginHub env username password h =
     (let url = ''https://hub.docker.com/v2/users/login'';
          jsonData = loginHubBody username password in
      case NewRequest env ''POST'' url jsonData of
        Inl err \<Rightarrow> (Inl err, h)
      | Inr req0 \<Rightarrow>
          (let req = HeaderSet ''Content-Type'' ''application/json''
                       (HeaderSet ''Accept'' ''application/json'' req0) in
           case clientDo env req h of
             (Inl err, h') \<Rightarrow> (Inl err, h')
           | (Inr resp, h') \<Rightarrow>
               if StatusCode resp \<noteq> 200 then (Inl (Status resp), h')
               else (case Body resp of
                  Inl err \<Rightarrow> (Inl err, h')
                | Inr bodyText \<Rightarrow>
                    (case UnmarshalToken env bodyText of
                       Inl err \<Rightarrow> (Inl err, h')
                     | Inr data \<Rightarrow>
                         if Token data = [] then (Inl ''empty token'', h')
                         else (Inr (Token data), h')))))"

definition pullManifest :: "env \<Rightarrow> string \<Rightarrow> string \<Rightarrow> string \<Rightarrow> history \<Rightarrow> (error + bytes) \<times> history" where
  "pullManifest env token repository tag h =
     (let url = ''https://index.docker.io/v2/'' @ repository @ ''/manifests/'' @ tag in
      case NewRequest env ''GET'' url [] of
        Inl err \<Rightarrow> (Inl err, h)
      | Inr req0 \<Rightarrow>
          (let req = HeaderSet ''Accept'' ''application/vnd.docker.distribution.manifest.v2+json''
                       (HeaderSet ''Authorization'' (''Bearer '' @ token) req0) in
           case clientDo env req h of
             (Inl err, h') \<Rightarrow> (Inl err, h')
           | (Inr resp, h') \<Rightarrow>
               if StatusCode resp \<noteq> 200 then (Inl (Status resp), h')
               else (case Body resp of
                  Inl err \<Rightarrow> (Inl err, h')
                | Inr bodyText \<Rightarrow> (Inr bodyText, h'))))"

definition pushManifest :: "env \<Rightarrow> string \<Rightarrow> string \<Rightarrow> string \<Rightarrow> bytes \<Rightarrow> history \<Rightarrow> error option \<times> history" where
  "pushManifest env token repository tag manifest h =
     (let url = ''https://index.docker.io/v2/'' @ repository @ ''/manifests/'' @ tag in
      case NewRequest env ''PUT'' url manifest of
        Inl err \<Rightarrow> (Some err, h)
      | Inr req0 \<Rightarrow>
          (let req = HeaderSet ''Content-type'' ''application/vnd.docker.distribution.manifest.v2+json''
                       (HeaderSet ''Authorization'' (''Bearer '' @ token) req0) in
           case clientDo env req h of
             (Inl err, h') \<Rightarrow> (Some err, h')
           | (Inr resp, h') \<Rightarrow>
               if StatusCode resp \<noteq> 201 then (Some (Status resp), h')
               else (None, h')))"

text \<open>The filtering loop of \<open>listPreviewTags\<close>, with \<open>tags\<close> as the accumulator.\<close>

fun previewLoop :: "string list \<Rightarrow> string list \<Rightarrow> string list" where
  "previewLoop [] tags = tags"
| "previewLoop (t # ts) tags =
     (if HasPrefix t ''preview-'' then previewLoop ts (tags @ [t]) else previewLoop ts tags)"

definition listPreviewTags :: "env \<Rightarrow> string \<Rightarrow> string \<Rightarrow> history \<Rightarrow> (error + string list) \<times> history" where
  "listPreviewTags env token repository h =
     (let url = ''https://index.docker.io/v2/'' @ repository @ ''/tags/list'' in
      case NewRequest env ''GET'' url [] of
        Inl err \<Rightarrow> (Inl err, h)
      | Inr req0 \<Rightarrow>
          (let req = HeaderSet ''Accept'' ''application/vnd.docker.distribution.manifest.v2+json''
                       (HeaderSet ''Authorization'' (''Bearer '' @ token) req0) in
           case clientDo env req h of
             (Inl err, h') \<Rightarrow> (Inl err, h')
           | (Inr resp, h') \<Rightarrow>
               if StatusCode resp \<noteq> 200 then (Inl (Status resp), h')
               else (case Body resp of
                  Inl err \<Rightarrow> (Inl err, h')
                | Inr bodyText \<Rightarrow>
                    (case UnmarshalTags env bodyText of
                       Inl err \<Rightarrow> (Inl err, h')
                     | Inr data \<Rightarrow> (Inr (previewLoop (Tags data) []), h')))))"

text \<open>
  \<open>getAllImages\<close> returns both of its results, and its caller reads the slice whatever the
  error is: the result is the triple of the slice (nil and empty are both \<open>[]\<close>), the error
  and the history.
\<close>

fun imagesLoop :: "imageResult list \<Rightarrow> string list \<Rightarrow> string list" where
  "imagesLoop [] images = images"
| "imagesLoop (r # rs) images = imagesLoop rs (images @ [ImageName r])"

definition getAllImages :: "env \<Rightarrow> history \<Rightarrow> string list \<times> error option \<times> history" where
  "getAllImages env h =
     (let url = ''https://hub.docker.com/v2/repositories/antidotelabs/?page_size=100'' in
      case NewRequest env ''GET'' url [] of
        Inl err \<Rightarrow> ([], Some err, h)
      | Inr req \<Rightarrow>
          (case clientDo env req h of
             (Inl err, h') \<Rightarrow> ([], Some err, h')
           | (Inr resp, h') \<Rightarrow>
               if StatusCode resp \<noteq> 200 then ([], Some (Status resp), h')
               else (case Body resp of
                  Inl err \<Rightarrow> ([], Some err, h')
                | Inr bodyText \<Rightarrow>
                    (case UnmarshalImages env bodyText of
                       Inl err \<Rightarrow> ([], Some err, h')
                     | Inr data \<Rightarrow> (imagesLoop (Results data) [], None, h')))))"

definition getTagLastUpdate :: "env \<Rightarrow> string \<Rightarrow> string \<Rightarrow> history \<Rightarrow> (error + int) \<times> history" where
  "getTagLastUpdate env repository tag h =
     (let url = ''https://hub.docker.com/v2/repositories/'' @ repository @ ''/tags/'' @ tag in
      case NewRequest env ''GET'' url [] of
        Inl err \<Rightarrow> (Inl err, h)
      | Inr req \<Rightarrow>
          (case clientDo env req h of
             (Inl err, h') \<Rightarrow> (Inl err, h')
           | (Inr resp, h') \<Rightarrow>
               if StatusCode resp \<noteq> 200 then (Inl (Status resp), h')
               else (case Body resp of
                  Inl err \<Rightarrow> (Inl err, h')
                | Inr bodyText \<Rightarrow>
                    (case UnmarshalTag env bodyText of
                       Inl err \<Rightarrow> (Inl err, h')
                     | Inr data \<Rightarrow>
                         (case ParseRFC3339 env (LastUpdated data) of
                            Inl err \<Rightarrow> (Inl err, h')
                          | Inr t \<Rightarrow> (Inr t, h'))))))"

definition deleteTag :: "env \<Rightarrow> string \<Rightarrow> string \<Rightarrow> string \<Rightarrow> history \<Rightarrow> error option \<times> history" where
  "deleteTag env token repository tag h =
     (let url = ''https://hub.docker.com/v2/repositories/'' @ repository @ ''/tags/'' @ tag @ ''/'' in
      case NewRequest env ''DELETE'' url [] of
        Inl err \<Rightarrow> (Some err, h)
      | Inr req0 \<Rightarrow>
          (let req = HeaderSet ''Accept'' ''application/json''
                       (HeaderSet ''Authorization'' (''JWT '' @ token) req0) in
           case clientDo env req h of
             (Inl err, h') \<Rightarrow> (Some err, h')
           | (Inr resp, h') \<Rightarrow>
               if StatusCode resp \<noteq> 204 then (Some (Status resp), h')
               else (case Body resp of
                  Inl err \<Rightarrow> (Some err, h')
                | Inr _ \<Rightarrow> (None, h'))))"

subsection \<open>The two commands\<close>

text \<open>
  The action of \<open>retag\<close>. The three flags are its arguments; the result is the returned
  error (\<open>None\<close> for nil) and, on success, the line printed.
\<close>

definition retag :: "env \<Rightarrow> string \<Rightarrow> string \<Rightarrow> string \<Rightarrow> history \<Rightarrow> (error + string) \<times> history" where
  "retag env repository oldTag newTag h =
     (case LookupEnv env dockerUsernameEnv of
        None \<Rightarrow> (Inl (dockerUsernameEnv @ '' not found in environment''), h)
      | Some username \<Rightarrow>
     (case LookupEnv env dockerPasswordEnv of
        None \<Rightarrow> (Inl (dockerPasswordEnv @ '' not found in environment''), h)
      | Some password \<Rightarrow>
     (case loginRegistry env repository username password h of
        (Inl err, h1) \<Rightarrow> (Inl (''failed to authenticate: '' @ err), h1)
      | (Inr token, h1) \<Rightarrow>
     (case pullManifest env token repository oldTag h1 of
        (Inl err, h2) \<Rightarrow> (Inl (''failed to pull manifest: '' @ err), h2)
      | (Inr manifest, h2) \<Rightarrow>
     (case pushManifest env token repository newTag manifest h2 of
        (Some err, h3) \<Rightarrow> (Inl (''failed to push manifest: '' @ err), h3)
      | (None, h3) \<Rightarrow>
          (let separator = (if HasPrefix oldTag ''sha256:'' then ''@'' else '':'') in
           (Inr (''Retagged '' @ repository @ separator @ oldTag @ '' as '' @ repository @ '':'' @ newTag @ [CHR 0x0A]),
            h3)))))))"

text \<open>
  The loop over \<open>tags\<close> inside the action of \<open>prune-preview-tags\<close>. \<open>Some err\<close> is the
  action returning \<open>err\<close>; \<open>None\<close> is the loop running to its end.
\<close>

fun pruneTags :: "env \<Rightarrow> string \<Rightarrow> string \<Rightarrow> string list \<Rightarrow> history \<Rightarrow> error option \<times> history" where
  "pruneTags env hubToken repository [] h = (None, h)"
| "pruneTags env hubToken repository (tag # tags) h =
     (case getTagLastUpdate env repository tag h of
        (Inl err, h1) \<Rightarrow> (Some (''failed to get last tag update: '' @ err), h1)
      | (Inr t, h1) \<Rightarrow>
          if Hours (Since env h1 t) > 24 then
            (case deleteTag env hubToken repository tag h1 of
               (Some err, h2) \<Rightarrow> (Some (''failed to delete tag '' @ tag @ '' - '' @ err), h2)
             | (None, h2) \<Rightarrow> pruneTags env hubToken repository tags h2)
          else pruneTags env hubToken repository tags h1)"

text \<open>The loop over \<open>images\<close>; \<open>continue\<close> is the recursive call on the rest.\<close>

fun pruneImages :: "env \<Rightarrow> string \<Rightarrow> string \<Rightarrow> string \<Rightarrow> string list \<Rightarrow> history \<Rightarrow> error option \<times> history" where
  "pruneImages env username password hubToken [] h = (None, h)"
| "pruneImages env username password hubToken (img # images) h =
     (let repository = ''antidotelabs/'' @ img in
      case loginRegistry env repository username password h of
        (Inl err, h1) \<Rightarrow> (Some (''failed to authenticate: '' @ err), h1)
      | (Inr registryToken, h1) \<Rightarrow>
          (case listPreviewTags env registryToken repository h1 of
             (Inl err, h2) \<Rightarrow> pruneImages env username password hubToken images h2
           | (Inr tags, h2) \<Rightarrow>
               (case pruneTags env hubToken repository tags h2 of
                  (Some err, h3) \<Rightarrow> (Some err, h3)
                | (None, h3) \<Rightarrow> pruneImages env username password hubToken images h3)))"

text \<open>
  The action of \<open>prune-preview-tags\<close>. The error of \<open>getAllImages\<close> is logged and nothing
  else: the action goes on with the slice it got.
\<close>

definition prune :: "env \<Rightarrow> history \<Rightarrow> error option \<times> history" where
  "prune env h =
     (case LookupEnv env dockerUsernameEnv of
        None \<Rightarrow> (Some (dockerUsernameEnv @ '' not found in environment''), h)
      | Some username \<Rightarrow>
     (case LookupEnv env dockerPasswordEnv of
        None \<Rightarrow> (Some (dockerPasswordEnv @ '' not found in environment''), h)
      | Some password \<Rightarrow>
     (case getAllImages env h of
        (images, err, h1) \<Rightarrow>
     (case loginHub env username password h1 of
        (Inl err, h2) \<Rightarrow> (Some (''failed to authenticate: '' @ err), h2)
      | (Inr hubToken, h2) \<Rightarrow> pruneImages env username password hubToken images h2))))"

text \<open>
  The bodies of the two loops, as functions of their own: \<open>Some err\<close> is the action
  returning \<open>err\<close>, \<open>None\<close> is the loop going on to its next element. The lemmas
  \<open>pruneTags_Cons\<close> and \<open>pruneImages_Cons\<close> prove that the loops above iterate them.
\<close>

definition pruneTag :: "env \<Rightarrow> string \<Rightarrow> string \<Rightarrow> string \<Rightarrow> history \<Rightarrow> error option \<times> history" where
  "pruneTag env hubToken repository tag h =
     (case getTagLastUpdate env repository tag h of
        (Inl err, h1) \<Rightarrow> (Some (''failed to get last tag update: '' @ err), h1)
      | (Inr t, h1) \<Rightarrow>
          if Hours (Since env h1 t) > 24 then
            (case deleteTag env hubToken repository tag h1 of
               (Some err, h2) \<Rightarrow> (Some (''failed to delete tag '' @ tag @ '' - '' @ err), h2)
             | (None, h2) \<Rightarrow> (None, h2))
          else (None, h1))"

definition pruneRepository :: "env \<Rightarrow> string \<Rightarrow> string \<Rightarrow> string \<Rightarrow> string \<Rightarrow> history \<Rightarrow> error option \<times> history" where
  "pruneRepository env username password hubToken img h =
     (let repository = ''antidotelabs/'' @ img in
      case loginRegistry env repository username password h of
        (Inl err, h1) \<Rightarrow> (Some (''failed to authenticate: '' @ err), h1)
      | (Inr registryToken, h1) \<Rightarrow>
          (case listPreviewTags env registryToken repository h1 of
             (Inl err, h2) \<Rightarrow> (None, h2)
           | (Inr tags, h2) \<Rightarrow> pruneTags env hubToken repository tags h2))"

subsection \<open>Requests and outcomes\<close>

text \<open>
  The request each helper hands to \<open>client.Do\<close>, and what the helper returns for each
  outcome of the round trip. They are used to state what is on the wire; the lemmas
  \<open>loginRegistry_eq\<close> to \<open>deleteTag_eq\<close> prove that the helpers send these requests and
  return these results.
\<close>

definition loginRegistryRequest :: "string \<Rightarrow> string \<Rightarrow> string \<Rightarrow> request" where
  "loginRegistryRequest repo username password =
     \<lparr>Method = ''GET'',
      URL = ''https://auth.docker.io/token?service=registry.docker.io&scope=repository:'' @ repo @ '':pull,push'',
      BasicAuth = Some (username, password), Header = [], ReqBody = []\<rparr>"

definition loginHubRequest :: "string \<Rightarrow> string \<Rightarrow> request" where
  "loginHubRequest username password =
     \<lparr>Method = ''POST'', URL = ''https://hub.docker.com/v2/users/login'', BasicAuth = None,
      Header = [(''Accept'', ''application/json''), (''Content-Type'', ''application/json'')],
      ReqBody = loginHubBody username password\<rparr>"

definition pullManifestRequest :: "string \<Rightarrow> string \<Rightarrow> string \<Rightarrow> request" where
  "pullManifestRequest token repository tag =
     \<lparr>Method = ''GET'', URL = ''https://index.docker.io/v2/'' @ repository @ ''/manifests/'' @ tag,
      BasicAuth = None,
      Header = [(''Authorization'', ''Bearer '' @ token),
                (''Accept'', ''application/vnd.docker.distribution.manifest.v2+json'')],
      ReqBody = []\<rparr>"

definition pushManifestRequest :: "string \<Rightarrow> string \<Rightarrow> string \<Rightarrow> bytes \<Rightarrow> request" where
  "pushManifestRequest token repository tag manifest =
     \<lparr>Method = ''PUT'', URL = ''https://index.docker.io/v2/'' @ repository @ ''/manifests/'' @ tag,
      BasicAuth = None,
      Header = [(''Authorization'', ''Bearer '' @ token),
                (''Content-type'', ''application/vnd.docker.distribution.manifest.v2+json'')],
      ReqBody = manifest\<rparr>"

definition listPreviewTagsRequest :: "string \<Rightarrow> string \<Rightarrow> request" where
  "listPreviewTagsRequest token repository =
     \<lparr>Method = ''GET'', URL = ''https://index.docker.io/v2/'' @ repository @ ''/tags/list'',
      BasicAuth = None,
      Header = [(''Authorization'', ''Bearer '' @ token),
                (''Accept'', ''application/vnd.docker.distribution.manifest.v2+json'')],
      ReqBody = []\<rparr>"

definition getAllImagesRequest :: request where
  "getAllImagesRequest =
     \<lparr>Method = ''GET'', URL = ''https://hub.docker.com/v2/repositories/antidotelabs/?page_size=100'',
      BasicAuth = None, Header = [], ReqBody = []\<rparr>"

definition getTagLastUpdateRequest :: "string \<Rightarrow> string \<Rightarrow> request" where
  "getTagLastUpdateRequest repository tag =
     \<lparr>Method = ''GET'', URL = ''https://hub.docker.com/v2/repositories/'' @ repository @ ''/tags/'' @ tag,
      BasicAuth = None, Header = [], ReqBody = []\<rparr>"

definition deleteTagRequest :: "string \<Rightarrow> string \<Rightarrow> string \<Rightarrow> request" where
  "deleteTagRequest token repository tag =
     \<lparr>Method = ''DELETE'',
      URL = ''https://hub.docker.com/v2/repositories/'' @ repository @ ''/tags/'' @ tag @ ''/'',
      BasicAuth = None,
      Header = [(''Authorization'', ''JWT '' @ token), (''Accept'', ''application/json'')],
      ReqBody = []\<rparr>"

definition tokenResult :: "env \<Rightarrow> error + response \<Rightarrow> error + string" where
  "tokenResult env r =
     (case r of
        Inl err \<Rightarrow> Inl err
      | Inr resp \<Rightarrow>
          if StatusCode resp \<noteq> 200 then Inl (Status resp)
          else (case Body resp of
             Inl err \<Rightarrow> Inl err
           | Inr bodyText \<Rightarrow>
               (case UnmarshalToken env bodyText of
                  Inl err \<Rightarrow> Inl err
                | Inr data \<Rightarrow> if Token data = [] then Inl ''empty token'' else Inr (Token data))))"

definition manifestResult :: "error + response \<Rightarrow> error + bytes" where
  "manifestResult r =
     (case r of
        Inl err \<Rightarrow> Inl err
      | Inr resp \<Rightarrow> if StatusCode resp \<noteq> 200 then Inl (Status resp) else Body resp)"

definition pushResult :: "error + response \<Rightarrow> error option" where
  "pushResult r =
     (case r of
        Inl err \<Rightarrow> Some err
      | Inr resp \<Rightarrow> if StatusCode resp \<noteq> 201 then Some (Status resp) else None)"

definition tagsResult :: "env \<Rightarrow> error + response \<Rightarrow> error + string list" where
  "tagsResult env r =
     (case r of
        Inl err \<Rightarrow> Inl err
      | Inr resp \<Rightarrow>
          if StatusCode resp \<noteq> 200 then Inl (Status resp)
          else (case Body resp of
             Inl err \<Rightarrow> Inl err
           | Inr bodyText \<Rightarrow>
               (case UnmarshalTags env bodyText of
                  Inl err \<Rightarrow> Inl err
                | Inr data \<Rightarrow> Inr (filter (\<lambda>t. prefix ''preview-'' t) (Tags data)))))"

definition imagesResult :: "env \<Rightarrow> error + response \<Rightarrow> string list \<times> error option" where
  "imagesResult env r =
     (case r of
        Inl err \<Rightarrow> ([], Some err)
      | Inr resp \<Rightarrow>
          if StatusCode resp \<noteq> 200 then ([], Some (Status resp))
          else (case Body resp of
             Inl err \<Rightarrow> ([], Some err)
           | Inr bodyText \<Rightarrow>
               (case UnmarshalImages env bodyText of
                  Inl err \<Rightarrow> ([], Some err)
                | Inr data \<Rightarrow> (map ImageName (Results data), None))))"

definition lastUpdateResult :: "env \<Rightarrow> error + response \<Rightarrow> error + int" where
  "lastUpdateResult env r =
     (case r of
        Inl err \<Rightarrow> Inl err
      | Inr resp \<Rightarrow>
          if StatusCode resp \<noteq> 200 then Inl (Status resp)
          else (case Body resp of
             Inl err \<Rightarrow> Inl err
           | Inr bodyText \<Rightarrow>
               (case UnmarshalTag env bodyText of
                  Inl err \<Rightarrow> Inl err
                | Inr data \<Rightarrow> ParseRFC3339 env (LastUpdated data))))"

definition deleteResult :: "error + response \<Rightarrow> error option" where
  "deleteResult r =
     (case r of
        Inl err \<Rightarrow> Some err
      | Inr resp \<Rightarrow>
          if StatusCode resp \<noteq> 204 then Some (Status resp)
          else (case Body resp of Inl err \<Rightarrow> Some err | Inr _ \<Rightarrow> None))"

subsection \<open>Concrete worlds\<close>

text \<open>
  Worlds used to run the program on concrete inputs. Both credentials are set, every URL
  parses, and the clock stands at 2021-04-10T00:00:00Z. The bodies are short stand-ins for
  the JSON documents: a token body is the token, a tag-metadata body is its \<open>last_updated\<close>
  string, and the two listings are decoded by table.
\<close>

definition status :: "int \<Rightarrow> string \<Rightarrow> bytes \<Rightarrow> error + response" where
  "status code text b = Inr \<lparr>StatusCode = code, Status = text, Body = Inr b\<rparr>"

definition wallClock :: int where
  "wallClock = 1618012800 * 1000000000"

definition baseEnv :: env where
  "baseEnv =
     \<lparr>LookupEnv = (\<lambda>k. if k = ''DOCKERHUB_USERNAME'' then Some ''nrelabs''
                        else if k = ''DOCKERHUB_PASSWORD'' then Some ''secret'' else None),
      NewRequestError = (\<lambda>m u. None),
      Do = (\<lambda>h req. status 404 ''404 Not Found'' []),
      Now = (\<lambda>h. wallClock),
      UnmarshalToken = (\<lambda>b. Inr \<lparr>Details = [], Token = b\<rparr>),
      UnmarshalTags = (\<lambda>b.
        if b = ''tags-b'' then Inr \<lparr>Name = ''antidotelabs/b'', Tags = [''preview-abc'', ''latest'', ''preview-xyz'', ''v2'']\<rparr>
        else if b = ''tags-a'' then Inr \<lparr>Name = ''antidotelabs/a'', Tags = [''preview-1'', ''preview-2'']\<rparr>
        else Inl ''unexpected end of JSON input''),
      UnmarshalImages = (\<lambda>b.
        if b = ''images'' then Inr \<lparr>Count = 2, Results = [\<lparr>User = ''antidotelabs'', ImageName = ''a''\<rparr>,
                                                          \<lparr>User = ''antidotelabs'', ImageName = ''b''\<rparr>]\<rparr>
        else Inl ''unexpected end of JSON input''),
      UnmarshalTag = (\<lambda>b. Inr \<lparr>LastUpdated = b, TagLastPushed = b\<rparr>),
      ParseRFC3339 = (\<lambda>s.
        if s = ''2021-04-09T00:00:00Z'' then Inr (wallClock - 86400000000000)
        else if s = ''2021-04-08T23:59:59.64Z'' then Inr (wallClock - 86400360000000)
        else if s = ''2021-03-23T14:28:48Z'' then Inr (1616509728 * 1000000000)
        else Inl ''parsing time: cannot parse'')\<rparr>"

text \<open>
  Repository a refuses its tag list; repository b lists four tags, of which preview-abc is
  exactly 24 hours old and preview-xyz 24.0001 hours old.
\<close>

definition routePrune :: "request \<Rightarrow> error + response" where
  "routePrune req =
     (let m = Method req; u = URL req in
      if m = ''GET'' \<and> u = ''https://hub.docker.com/v2/repositories/antidotelabs/?page_size=100''
        then status 200 ''200 OK'' ''images''
      else if m = ''POST'' \<and> u = ''https://hub.docker.com/v2/users/login''
        then status 200 ''200 OK'' ''hubtoken''
      else if m = ''GET'' \<and> u = ''https://auth.docker.io/token?service=registry.docker.io&scope=repository:antidotelabs/a:pull,push''
        then status 200 ''200 OK'' ''regtoken-a''
      else if m = ''GET'' \<and> u = ''https://auth.docker.io/token?service=registry.docker.io&scope=repository:antidotelabs/b:pull,push''
        then status 200 ''200 OK'' ''regtoken-b''
      else if m = ''GET'' \<and> u = ''https://index.docker.io/v2/antidotelabs/b/tags/list''
        then status 200 ''200 OK'' ''tags-b''
      else if m = ''GET'' \<and> u = ''https://hub.docker.com/v2/repositories/antidotelabs/b/tags/preview-abc''
        then status 200 ''200 OK'' ''2021-04-09T00:00:00Z''
      else if m = ''GET'' \<and> u = ''https://hub.docker.com/v2/repositories/antidotelabs/b/tags/preview-xyz''
        then status 200 ''200 OK'' ''2021-04-08T23:59:59.64Z''
      else if m = ''DELETE'' \<and> u = ''https://hub.docker.com/v2/repositories/antidotelabs/b/tags/preview-xyz/''
        then status 204 ''204 No Content'' []
      else status 404 ''404 Not Found'' [])"

definition envPrune :: env where
  "envPrune = baseEnv\<lparr>Do := (\<lambda>h. routePrune)\<rparr>"

text \<open>
  Repository a lists two old preview tags, and the hub refuses to delete the first;
  repository b is as above.
\<close>

definition routeDeleteFails :: "request \<Rightarrow> error + response" where
  "routeDeleteFails req =
     (let m = Method req; u = URL req in
      if m = ''GET'' \<and> u = ''https://index.docker.io/v2/antidotelabs/a/tags/list''
        then status 200 ''200 OK'' ''tags-a''
      else if m = ''GET'' \<and> u = ''https://hub.docker.com/v2/repositories/antidotelabs/a/tags/preview-1''
        then status 200 ''200 OK'' ''2021-03-23T14:28:48Z''
      else if m = ''GET'' \<and> u = ''https://hub.docker.com/v2/repositories/antidotelabs/a/tags/preview-2''
        then status 200 ''200 OK'' ''2021-03-23T14:28:48Z''
      else if m = ''DELETE'' \<and> u = ''https://hub.docker.com/v2/repositories/antidotelabs/a/tags/preview-1/''
        then status 500 ''500 Internal Server Error'' []
      else if m = ''DELETE'' \<and> u = ''https://hub.docker.com/v2/repositories/antidotelabs/a/tags/preview-2/''
        then status 204 ''204 No Content'' []
      else routePrune req)"

definition envDeleteFails :: env where
  "envDeleteFails = baseEnv\<lparr>Do := (\<lambda>h. routeDeleteFails)\<rparr>"

text \<open>The token service refuses repository b; repository a refuses its tag list.\<close>

definition routeAuthFails :: "request \<Rightarrow> error + response" where
  "routeAuthFails req =
     (if Method req = ''GET'' \<and> URL req = ''https://auth.docker.io/token?service=registry.docker.io&scope=repository:antidotelabs/b:pull,push''
        then status 401 ''401 Unauthorized'' []
      else routePrune req)"

definition envAuthFails :: env where
  "envAuthFails = baseEnv\<lparr>Do := (\<lambda>h. routeAuthFails)\<rparr>"

text \<open>The hub's repository listing is down; its login works.\<close>

definition routeListingDown :: "request \<Rightarrow> error + response" where
  "routeListingDown req =
     (if Method req = ''POST'' \<and> URL req = ''https://hub.docker.com/v2/users/login''
        then status 200 ''200 OK'' ''hubtoken''
      else status 500 ''500 Internal Server Error'' [])"

definition envListingDown :: env where
  "envListingDown = baseEnv\<lparr>Do := (\<lambda>h. routeListingDown)\<rparr>"

text \<open>The registry serves the manifest of antidotelabs/app:v1 and accepts it as v2.\<close>

definition routeRetag :: "request \<Rightarrow> error + response" where
  "routeRetag req =
     (let m = Method req; u = URL req in
      if m = ''GET'' \<and> u = ''https://auth.docker.io/token?service=registry.docker.io&scope=repository:antidotelabs/app:pull,push''
        then status 200 ''200 OK'' ''regtoken''
      else if m = ''GET'' \<and> u = ''https://index.docker.io/v2/antidotelabs/app/manifests/v1''
        then status 200 ''200 OK'' ''{schemaVersion: 2, layers: [sha256:cdf54fd8]}''
      else if m = ''PUT'' \<and> u = ''https://index.docker.io/v2/antidotelabs/app/manifests/v2''
        then status 201 ''201 Created'' []
      else status 404 ''404 Not Found'' [])"

definition envRetag :: env where
  "envRetag = baseEnv\<lparr>Do := (\<lambda>h. routeRetag)\<rparr>"

subsection \<open>Predicates on histories\<close>

text \<open>A request is for a repository when it is one of the four per-repository calls on it.\<close>

definition forRepository :: "string \<Rightarrow> request \<Rightarrow> bool" where
  "forRepository repo q \<longleftrightarrow>
     (\<exists>username password. q = loginRegistryRequest repo username password) \<or>
     (\<exists>token. q = listPreviewTagsRequest token repo) \<or>
     (\<exists>tag. q = getTagLastUpdateRequest repo tag) \<or>
     (\<exists>token tag. q = deleteTagRequest token repo tag)"

text \<open>No DELETE in the history was answered with anything that \<open>deleteTag\<close> reports as an error.\<close>

definition noFailedDelete :: "history \<Rightarrow> bool" where
  "noFailedDelete h \<longleftrightarrow> (\<forall>x\<in>set h. Method (fst x) = ''DELETE'' \<longrightarrow> deleteResult (snd x) = None)"

text \<open>
  The run stopped at a failed DELETE: it is the last exchange, nothing failed before it, and
  the result names its tag.
\<close>

definition stoppedAtDelete :: "error option \<times> history \<Rightarrow> bool" where
  "stoppedAtDelete rh \<longleftrightarrow>
     (\<exists>pre hubToken repository tag res err.
        snd rh = pre @ [(deleteTagRequest hubToken repository tag, res)] \<and> noFailedDelete pre \<and>
        deleteResult res = Some err \<and>
        fst rh = Some (''failed to delete tag '' @ tag @ '' - '' @ err))"

text \<open>
  A request \<open>q\<close> sent after the history \<open>pre\<close> is an age-verified delete: it deletes a
  preview tag, the exchange just before it fetched that tag's timestamp, and the clock read
  at that moment is more than 24 hours past the timestamp.
\<close>

definition ageVerified :: "env \<Rightarrow> history \<Rightarrow> request \<Rightarrow> bool" where
  "ageVerified env pre q \<longleftrightarrow>
     (\<exists>hubToken repository tag t.
        HasPrefix tag ''preview-'' \<and> q = deleteTagRequest hubToken repository tag \<and> pre \<noteq> [] \<and>
        fst (last pre) = getTagLastUpdateRequest repository tag \<and>
        lastUpdateResult env (snd (last pre)) = Inr t \<and> Now env pre - t > 24 * Hour)"

definition deletesVerified :: "env \<Rightarrow> history \<Rightarrow> bool" where
  "deletesVerified env h \<longleftrightarrow>
     (\<forall>i<length h. Method (fst (h ! i)) = ''DELETE'' \<longrightarrow> ageVerified env (take i h) (fst (h ! i)))"

section \<open>Properties\<close>

subsection \<open>The helpers, one round trip each\<close>

lemma HasPrefix_iff: "HasPrefix s p \<longleftrightarrow> prefix p s"
  by (auto simp: HasPrefix_def prefix_def min_def) (metis append_take_drop_id)+

lemma previewLoop_eq: "previewLoop ts acc = acc @ filter (\<lambda>t. prefix ''preview-'' t) ts"
  by (induction ts arbitrary: acc) (simp_all add: HasPrefix_iff)

lemma imagesLoop_eq: "imagesLoop rs acc = acc @ map ImageName rs"
  by (induction rs arbitrary: acc) simp_all

lemma loginRegistry_eq:
  "loginRegistry env repo username password h =
     (let req = loginRegistryRequest repo username password in
      case NewRequestError env ''GET'' (URL req) of
        Some err \<Rightarrow> (Inl err, h)
      | None \<Rightarrow> (tokenResult env (Do env h req), h @ [(req, Do env h req)]))"
  by (simp add: loginRegistry_def loginRegistryRequest_def NewRequest_def SetBasicAuth_def
      clientDo_def tokenResult_def Let_def split: option.splits sum.splits)

lemma loginHub_eq:
  "loginHub env username password h =
     (let req = loginHubRequest username password in
      case NewRequestError env ''POST'' (URL req) of
        Some err \<Rightarrow> (Inl err, h)
      | None \<Rightarrow> (tokenResult env (Do env h req), h @ [(req, Do env h req)]))"
  by (simp add: loginHub_def loginHubRequest_def NewRequest_def HeaderSet_def
      clientDo_def tokenResult_def Let_def split: option.splits sum.splits)

lemma pullManifest_eq:
  "pullManifest env token repository tag h =
     (let req = pullManifestRequest token repository tag in
      case NewRequestError env ''GET'' (URL req) of
        Some err \<Rightarrow> (Inl err, h)
      | None \<Rightarrow> (manifestResult (Do env h req), h @ [(req, Do env h req)]))"
  by (simp add: pullManifest_def pullManifestRequest_def NewRequest_def HeaderSet_def
      clientDo_def manifestResult_def Let_def split: option.splits sum.splits)

lemma pushManifest_eq:
  "pushManifest env token repository tag manifest h =
     (let req = pushManifestRequest token repository tag manifest in
      case NewRequestError env ''PUT'' (URL req) of
        Some err \<Rightarrow> (Some err, h)
      | None \<Rightarrow> (pushResult (Do env h req), h @ [(req, Do env h req)]))"
  by (simp add: pushManifest_def pushManifestRequest_def NewRequest_def HeaderSet_def
      clientDo_def pushResult_def Let_def split: option.splits sum.splits)

lemma listPreviewTags_eq:
  "listPreviewTags env token repository h =
     (let req = listPreviewTagsRequest token repository in
      case NewRequestError env ''GET'' (URL req) of
        Some err \<Rightarrow> (Inl err, h)
      | None \<Rightarrow> (tagsResult env (Do env h req), h @ [(req, Do env h req)]))"
  by (simp add: listPreviewTags_def listPreviewTagsRequest_def NewRequest_def HeaderSet_def
      clientDo_def tagsResult_def previewLoop_eq Let_def split: option.splits sum.splits)

lemma getAllImages_eq:
  "getAllImages env h =
     (let req = getAllImagesRequest in
      case NewRequestError env ''GET'' (URL req) of
        Some err \<Rightarrow> ([], Some err, h)
      | None \<Rightarrow> (fst (imagesResult env (Do env h req)), snd (imagesResult env (Do env h req)),
                 h @ [(req, Do env h req)]))"
  by (simp add: getAllImages_def getAllImagesRequest_def NewRequest_def
      clientDo_def imagesResult_def imagesLoop_eq Let_def split: option.splits sum.splits)

lemma getTagLastUpdate_eq:
  "getTagLastUpdate env repository tag h =
     (let req = getTagLastUpdateRequest repository tag in
      case NewRequestError env ''GET'' (URL req) of
        Some err \<Rightarrow> (Inl err, h)
      | None \<Rightarrow> (lastUpdateResult env (Do env h req), h @ [(req, Do env h req)]))"
  by (simp add: getTagLastUpdate_def getTagLastUpdateRequest_def NewRequest_def
      clientDo_def lastUpdateResult_def Let_def split: option.splits sum.splits)

lemma deleteTag_eq:
  "deleteTag env token repository tag h =
     (let req = deleteTagRequest token repository tag in
      case NewRequestError env ''DELETE'' (URL req) of
        Some err \<Rightarrow> (Some err, h)
      | None \<Rightarrow> (deleteResult (Do env h req), h @ [(req, Do env h req)]))"
  by (simp add: deleteTag_def deleteTagRequest_def NewRequest_def HeaderSet_def
      clientDo_def deleteResult_def Let_def split: option.splits sum.splits)

lemma Hours_gt_24: "Hours d > 24 \<longleftrightarrow> d > 24 * Hour"
proof -
  have "d sdiv Hour * Hour + d smod Hour = d" by (rule sdiv_mult_smod_eq)
  then have "real_of_int d = real_of_int (d sdiv Hour) * real_of_int Hour + real_of_int (d smod Hour)"
    by (metis of_int_add of_int_mult)
  then have eq: "Hours d * 3600000000000 = real_of_int d"
    by (simp add: Hours_def Hour_def field_simps)
  have "24 < Hours d \<longleftrightarrow> 24 * 3600000000000 < Hours d * 3600000000000"
    by simp
  also have "\<dots> \<longleftrightarrow> real_of_int (24 * Hour) < real_of_int d"
    by (simp add: eq Hour_def)
  also have "\<dots> \<longleftrightarrow> 24 * Hour < d"
    by (rule of_int_less_iff)
  finally show ?thesis .
qed

lemma Since_gt_24: "Hours (Since env h t) > 24 \<longleftrightarrow> Now env h - t > 24 * Hour"
  by (auto simp: Hours_gt_24 Since_def Sub_def Hour_def minDuration_def maxDuration_def)

lemmas helper_eqs = loginRegistry_eq loginHub_eq pullManifest_eq pushManifest_eq
  listPreviewTags_eq getAllImages_eq getTagLastUpdate_eq deleteTag_eq

lemmas request_defs = loginRegistryRequest_def loginHubRequest_def pullManifestRequest_def
  pushManifestRequest_def listPreviewTagsRequest_def getAllImagesRequest_def
  getTagLastUpdateRequest_def deleteTagRequest_def

lemmas result_defs = tokenResult_def manifestResult_def pushResult_def tagsResult_def
  imagesResult_def lastUpdateResult_def deleteResult_def

lemmas world_defs = baseEnv_def status_def wallClock_def dockerUsernameEnv_def dockerPasswordEnv_def

subsection \<open>Listing preview tags\<close>

text \<open>
  C7. Whenever the registry answers the tag-list request with 200 and a body that decodes,
  \<open>listPreviewTags\<close> returns exactly the decoded tags that start with \<open>preview-\<close>, in their
  original relative order (the \<open>filter\<close> of the list); on the list preview-abc, latest,
  preview-xyz, v2 it returns preview-abc, preview-xyz.
\<close>

theorem listPreviewTags_filters_preview_prefix:
  assumes "NewRequestError env ''GET'' (''https://index.docker.io/v2/'' @ repository @ ''/tags/list'') = None"
    and "Do env h (listPreviewTagsRequest token repository) = Inr resp"
    and "StatusCode resp = 200"
    and "Body resp = Inr bodyText"
    and "UnmarshalTags env bodyText = Inr data"
  shows "fst (listPreviewTags env token repository h) = Inr (filter (\<lambda>t. prefix ''preview-'' t) (Tags data))"
  using assms
  by (simp add: listPreviewTags_def NewRequest_def HeaderSet_def clientDo_def
      listPreviewTagsRequest_def previewLoop_eq Let_def)

theorem listPreviewTags_filters_preview_prefix_witness:
  "fst (listPreviewTags envPrune ''regtoken-b'' ''antidotelabs/b'' []) = Inr [''preview-abc'', ''preview-xyz'']"
  using listPreviewTags_filters_preview_prefix [of envPrune "''antidotelabs/b''" "[]" "''regtoken-b''"
      "\<lparr>StatusCode = 200, Status = ''200 OK'', Body = Inr ''tags-b''\<rparr>" "''tags-b''"
      "\<lparr>Name = ''antidotelabs/b'', Tags = [''preview-abc'', ''latest'', ''preview-xyz'', ''v2'']\<rparr>"]
  by (simp add: envPrune_def routePrune_def world_defs listPreviewTagsRequest_def)

subsection \<open>A failed image listing\<close>

text \<open>
  Whatever \<open>getAllImages\<close> reports, the action only logs it: with both credentials set, the
  result of the run is decided by the hub login and the loop over the slice, and a failed
  listing leaves the slice empty.
\<close>

lemma getAllImages_error_no_images:
  "getAllImages env h = (images, Some err, h1) \<Longrightarrow> images = []"
  by (auto simp: getAllImages_eq imagesResult_def Let_def split: option.splits sum.splits if_splits)

lemma prune_after_failed_listing:
  assumes "LookupEnv env dockerUsernameEnv = Some username"
    and "LookupEnv env dockerPasswordEnv = Some password"
    and "getAllImages env h = (images, Some err, h1)"
    and "loginHub env username password h1 = (Inr hubToken, h2)"
  shows "prune env h = (None, h2)"
  using assms getAllImages_error_no_images [OF assms(3)] by (simp add: prune_def)

text \<open>
  C1. The claim is that a failed image listing makes the run fail. In the world where the
  listing answers 500 and the hub login works, \<open>getAllImages\<close> returns the error
  \<open>500 Internal Server Error\<close> and the run nevertheless returns nil.
\<close>

theorem prune_succeeds_when_listing_fails:
  "fst (snd (getAllImages envListingDown [])) = Some ''500 Internal Server Error'' \<and>
   fst (prune envListingDown []) = None"
  by (simp add: prune_def helper_eqs request_defs result_defs world_defs envListingDown_def
      routeListingDown_def)

subsection \<open>The body of the hub login\<close>

text \<open>
  C9. The claim is that the login body is well-formed JSON that encodes the two
  credentials, whatever characters they contain. The body is the raw interpolation: for the
  username a"b the double quote goes into the body unescaped, and two different pairs of
  credentials give the same body, so the body cannot encode the pair.
\<close>

theorem loginHub_body_not_escaped:
  "map (\<lambda>x. ReqBody (fst x)) (snd (loginHub baseEnv (''a'' @ [CHR 0x22] @ ''b'') ''p'' [])) =
     [[CHR ''{'', CHR 0x0A, CHR 0x09, CHR 0x09, CHR 0x22] @ ''username'' @ [CHR 0x22] @ '': '' @
      [CHR 0x22, CHR ''a'', CHR 0x22, CHR ''b'', CHR 0x22] @ '','' @
      [CHR 0x0A, CHR 0x09, CHR 0x09, CHR 0x22] @ ''password'' @ [CHR 0x22] @ '': '' @
      [CHR 0x22, CHR ''p'', CHR 0x22, CHR 0x0A, CHR 0x09] @ ''}''] \<and>
   loginHubBody (''a'' @ [CHR 0x22] @ '','' @ [CHR 0x0A, CHR 0x09, CHR 0x09, CHR 0x22] @ ''password''
                   @ [CHR 0x22] @ '': '' @ [CHR 0x22] @ ''b'') ''c'' =
   loginHubBody ''a'' (''b'' @ [CHR 0x22] @ '','' @ [CHR 0x0A, CHR 0x09, CHR 0x09, CHR 0x22] @ ''password''
                   @ [CHR 0x22] @ '': '' @ [CHR 0x22] @ ''c'')"
  by (simp add: loginHub_def loginHubBody_def NewRequest_def HeaderSet_def clientDo_def baseEnv_def
      Let_def status_def)

end
